theory Spec2Isabelle
  imports Main
begin

section \<open>The authentication controller of clockwork-backend\<close>

text \<open>
  A shallow embedding of \<^verbatim>\<open>src/clockwork-auth-controller.js\<close> (the handlers
  \<^verbatim>\<open>signup\<close>, \<^verbatim>\<open>login\<close>, \<^verbatim>\<open>verifyTwoFactor\<close>, \<^verbatim>\<open>logout\<close>,
  \<^verbatim>\<open>refreshTokens\<close>, \<^verbatim>\<open>resetPasswordRequest\<close>, \<^verbatim>\<open>resetPassword\<close>) and of
  \<^verbatim>\<open>EmailService.send\<close> in \<^verbatim>\<open>src/clockwork-email-service.js\<close>.

  Every handler is a function from the request and the stored state (the SQL tables and
  the Redis store) to the HTTP response and the new state. What a handler reads from
  outside (the clock, the salt of bcrypt, the identifier the database gives a new row,
  whether SendGrid accepts a message) is the \<open>ctx\<close> argument; what is configured
  (secrets, lifetimes, the validators of \<^verbatim>\<open>utils/validators\<close>, the TOTP check of
  speakeasy, the uniqueness constraint of the \<^verbatim>\<open>users.email\<close> column) is the
  \<open>config\<close> argument. Request fields are strings, as a well-formed client sends them.
  A handler reads the clock once. The lifetimes \<^verbatim>\<open>JWT_EXPIRE\<close> and
  \<^verbatim>\<open>JWT_REFRESH_EXPIRE\<close> are in seconds (900 and 604800 when the environment sets
  none). Identifiers of users are strings: Redis returns strings, and the strict
  comparison \<^verbatim>\<open>userId !== decoded.id\<close> of \<^verbatim>\<open>resetPassword\<close> lets only equal
  strings pass. The comparison \<^verbatim>\<open>where({ email })\<close> is equality of strings.
  Reads and writes of the SQL tables and of Redis succeed, except the insert into
  \<^verbatim>\<open>users\<close> under a uniqueness constraint; the other ways a handler reaches its
  \<^verbatim>\<open>catch\<close> block (a null decode result, a missing row, a rejected e-mail) are
  branches of the model.
\<close>

subsection \<open>Strings\<close>

text \<open>\<^verbatim>\<open>String.prototype.toLowerCase\<close>, on ASCII letters.\<close>

definition lower_char :: "char \<Rightarrow> char" where
  "lower_char c =
     (case map_of (zip ''ABCDEFGHIJKLMNOPQRSTUVWXYZ'' ''abcdefghijklmnopqrstuvwxyz'') c of
        None \<Rightarrow> c
      | Some l \<Rightarrow> l)"

definition toLowerCase :: "string \<Rightarrow> string" where
  "toLowerCase s = map lower_char s"

subsection \<open>jsonwebtoken\<close>

text \<open>
  A token string is modelled symbolically by what it encodes: the claim set and the secret
  that signed it (HS256 is deterministic, so two tokens are the same string exactly when
  both agree), or any other text (\<open>Raw\<close>), which is no JWT. \<^verbatim>\<open>jwt.sign\<close> with
  \<^verbatim>\<open>expiresIn\<close> adds \<^verbatim>\<open>iat = floor(Date.now() / 1000)\<close> and
  \<^verbatim>\<open>exp = iat + expiresIn\<close>; \<^verbatim>\<open>jwt.verify\<close> throws (here: \<open>None\<close>) on a bad
  signature or when \<^verbatim>\<open>floor(Date.now() / 1000) >= exp\<close>; \<^verbatim>\<open>jwt.decode\<close> returns the
  claims without any check, and null for text that is no JWT. Times are milliseconds,
  as \<^verbatim>\<open>Date.now()\<close> gives them.
\<close>

type_synonym uid = string

record claims =
  c_id :: uid
  c_type :: string
  c_email :: "string option"
  c_iat :: int
  c_exp :: "int option"

datatype token = Jwt claims string | Raw string

definition jwt_sign :: "uid \<Rightarrow> string \<Rightarrow> string option \<Rightarrow> string \<Rightarrow> int \<Rightarrow> int \<Rightarrow> token" where
  "jwt_sign i ty em secret expiresIn now =
     Jwt \<lparr>c_id = i, c_type = ty, c_email = em, c_iat = now div 1000,
          c_exp = Some (now div 1000 + expiresIn)\<rparr> secret"

fun jwt_verify :: "token \<Rightarrow> string \<Rightarrow> int \<Rightarrow> claims option" where
  "jwt_verify (Raw t) secret now = None"
| "jwt_verify (Jwt c sg) secret now =
     (if sg \<noteq> secret then None
      else case c_exp c of
        None \<Rightarrow> Some c
      | Some e \<Rightarrow> if now div 1000 \<ge> e then None else Some c)"

fun jwt_decode :: "token \<Rightarrow> claims option" where
  "jwt_decode (Raw t) = None"
| "jwt_decode (Jwt c sg) = Some c"

subsection \<open>bcrypt\<close>

text \<open>A hash is the password with its salt; \<^verbatim>\<open>bcrypt.compare\<close> accepts the password hashed.\<close>

datatype pwhash = Bcrypt string nat

definition bcrypt_hash :: "string \<Rightarrow> nat \<Rightarrow> pwhash" where
  "bcrypt_hash pw salt = Bcrypt pw salt"

fun bcrypt_compare :: "string \<Rightarrow> pwhash \<Rightarrow> bool" where
  "bcrypt_compare pw (Bcrypt q salt) = (pw = q)"

subsection \<open>Stored state\<close>

text \<open>
  The rows of \<^verbatim>\<open>users\<close> with the columns the handlers read or write (the roles are the
  list that \<^verbatim>\<open>JSON.stringify\<close> stores), of \<^verbatim>\<open>nutrition\<close>, \<^verbatim>\<open>audit_logs\<close> and
  \<^verbatim>\<open>email_logs\<close> with the columns that identify a row.
\<close>

record user =
  u_id :: uid
  u_email :: string
  u_password :: pwhash
  u_name :: string
  u_phone :: string
  u_roles :: "string list"
  u_subscription_plan :: string
  two_factor_enabled :: bool
  two_factor_secret :: "string option"
  is_online :: bool
  last_seen :: "int option"
  updated_at :: "int option"

record nutrition_row =
  client_id :: uid
  assigned_by :: uid

record audit =
  a_user_id :: uid
  a_action :: string
  a_resource :: string

datatype template = Welcome | PasswordResetMail | PasswordChanged

record email_log =
  el_to :: string
  el_subject :: template
  el_status :: string

text \<open>
  Redis: every entry has the value, the seconds of \<^verbatim>\<open>setex\<close> and the time it was set;
  \<^verbatim>\<open>get\<close> returns null once the seconds have passed. The keys are built from six
  prefixes, none a prefix of another, and each prefix holds one kind of value, so the
  store is one map per prefix used by the handlers modelled:
  \<^verbatim>\<open>refresh_<id>\<close>, \<^verbatim>\<open>2fa_temp_<id>\<close>, \<^verbatim>\<open>blacklist_<token>\<close>, \<^verbatim>\<open>reset_<token>\<close>.
\<close>

record 'v entry =
  e_value :: 'v
  e_ttl :: int
  e_set_at :: int

record session =
  s_token :: token
  s_email :: string
  s_roles :: "string list"

definition redis_setex :: "('k \<rightharpoonup> 'v entry) \<Rightarrow> 'k \<Rightarrow> int \<Rightarrow> 'v \<Rightarrow> int \<Rightarrow> ('k \<rightharpoonup> 'v entry)" where
  "redis_setex m k ttl v now = m(k \<mapsto> \<lparr>e_value = v, e_ttl = ttl, e_set_at = now\<rparr>)"

definition redis_get :: "('k \<rightharpoonup> 'v entry) \<Rightarrow> 'k \<Rightarrow> int \<Rightarrow> 'v option" where
  "redis_get m k now =
     (case m k of
        None \<Rightarrow> None
      | Some e \<Rightarrow> if now < e_set_at e + e_ttl e * 1000 then Some (e_value e) else None)"

definition redis_del :: "('k \<rightharpoonup> 'v entry) \<Rightarrow> 'k \<Rightarrow> ('k \<rightharpoonup> 'v entry)" where
  "redis_del m k = m(k := None)"

record state =
  users :: "user list"
  nutrition :: "nutrition_row list"
  audit_logs :: "audit list"
  email_logs :: "email_log list"
  refresh_keys :: "uid \<rightharpoonup> session entry"
  twofa_temp_keys :: "uid \<rightharpoonup> token entry"
  blacklist_keys :: "token \<rightharpoonup> string entry"
  reset_keys :: "token \<rightharpoonup> uid entry"

subsection \<open>Configuration, context, responses\<close>

record config =
  JWT_SECRET :: string
  JWT_REFRESH_SECRET :: string
  JWT_EXPIRE :: int
  JWT_REFRESH_EXPIRE :: int
  isDevelopment :: bool
  validateEmail :: "string \<Rightarrow> bool"
  validatePassword :: "string \<Rightarrow> bool \<times> string list"
  totp_verify :: "string \<Rightarrow> string \<Rightarrow> int \<Rightarrow> bool"
  users_email_unique :: bool

record ctx =
  now :: int
  salt :: nat
  new_id :: uid
  sendgrid_ok :: bool

datatype body =
    JError string
  | JErrorDetails string "string list"
  | JUserTokens user token token string
  | JTwoFactor token string
  | JTokens token token
  | JMessage string

type_synonym response = "nat \<times> body"

subsection \<open>Helpers of the handlers\<close>

text \<open>\<^verbatim>\<open>db('users').where({...}).first()\<close> and \<^verbatim>\<open>.where({ id }).update({...})\<close>.\<close>

definition first_by_email :: "string \<Rightarrow> user list \<Rightarrow> user option" where
  "first_by_email em us = find (\<lambda>u. u_email u = em) us"

definition first_by_id :: "uid \<Rightarrow> user list \<Rightarrow> user option" where
  "first_by_id i us = find (\<lambda>u. u_id u = i) us"

definition update_by_id :: "uid \<Rightarrow> (user \<Rightarrow> user) \<Rightarrow> user list \<Rightarrow> user list" where
  "update_by_id i f us = map (\<lambda>u. if u_id u = i then f u else u) us"

text \<open>
  The insert into \<^verbatim>\<open>users\<close>: under a uniqueness constraint on the e-mail column a
  second row with a stored e-mail is refused (the insert throws).
\<close>

definition insert_user :: "config \<Rightarrow> user \<Rightarrow> user list \<Rightarrow> user list option" where
  "insert_user cfg u us =
     (if users_email_unique cfg \<and> first_by_email (u_email u) us \<noteq> None then None
      else Some (us @ [u]))"

text \<open>\<^verbatim>\<open>generateTokens(userId)\<close>.\<close>

definition generateTokens :: "config \<Rightarrow> uid \<Rightarrow> int \<Rightarrow> token \<times> token" where
  "generateTokens cfg userId t =
     (jwt_sign userId ''access'' None (JWT_SECRET cfg) (JWT_EXPIRE cfg) t,
      jwt_sign userId ''refresh'' None (JWT_REFRESH_SECRET cfg) (JWT_REFRESH_EXPIRE cfg) t)"

text \<open>
  \<^verbatim>\<open>EmailService.send\<close>: in development the message is only logged; otherwise a failure
  of SendGrid is logged and thrown again (\<open>False\<close>). The log row is written through
  \<^verbatim>\<open>db\<close>, outside any transaction of the caller.
\<close>

definition send :: "config \<Rightarrow> ctx \<Rightarrow> string \<Rightarrow> template \<Rightarrow> email_log list \<Rightarrow> bool \<times> email_log list" where
  "send cfg cx to subject logs =
     (if isDevelopment cfg
      then (True, logs @ [\<lparr>el_to = to, el_subject = subject, el_status = ''development''\<rparr>])
      else if sendgrid_ok cx
      then (True, logs @ [\<lparr>el_to = to, el_subject = subject, el_status = ''sent''\<rparr>])
      else (False, logs @ [\<lparr>el_to = to, el_subject = subject, el_status = ''failed''\<rparr>]))"

definition audit_row :: "uid \<Rightarrow> string \<Rightarrow> string \<Rightarrow> audit" where
  "audit_row i act r = \<lparr>a_user_id = i, a_action = act, a_resource = r\<rparr>"

definition week :: int where
  "week = 7 * 24 * 60 * 60"

text \<open>JavaScript truthiness of a nullable string: null and the empty string are falsy.\<close>

definition truthy :: "string option \<Rightarrow> bool" where
  "truthy x = (case x of None \<Rightarrow> False | Some v \<Rightarrow> v \<noteq> [])"

subsection \<open>signup\<close>

text \<open>
  The transaction \<^verbatim>\<open>trx\<close> holds the writes to \<^verbatim>\<open>users\<close>, \<^verbatim>\<open>nutrition\<close> and
  \<^verbatim>\<open>audit_logs\<close>: they reach the state only at \<^verbatim>\<open>trx.commit()\<close>. The write to
  Redis and the log row of the e-mail service are outside it. A request without
  \<^verbatim>\<open>roles\<close> takes the default \<^verbatim>\<open>['client']\<close>. The columns the insert does not name
  take the defaults of a new account (no second factor, offline). The response carries
  the row returned by the insert.
\<close>

record signup_req =
  sr_email :: string
  sr_password :: string
  sr_name :: string
  sr_phone :: string
  sr_roles :: "string list option"

definition requested_roles :: "signup_req \<Rightarrow> string list" where
  "requested_roles rq = (case sr_roles rq of None \<Rightarrow> [''client''] | Some r \<Rightarrow> r)"

definition new_user :: "ctx \<Rightarrow> signup_req \<Rightarrow> string list \<Rightarrow> user" where
  "new_user cx rq roles =
     \<lparr>u_id = new_id cx, u_email = toLowerCase (sr_email rq),
      u_password = bcrypt_hash (sr_password rq) (salt cx),
      u_name = sr_name rq, u_phone = sr_phone rq, u_roles = roles,
      u_subscription_plan = ''basic'', two_factor_enabled = False,
      two_factor_secret = None, is_online = False, last_seen = None, updated_at = None\<rparr>"

definition signup :: "config \<Rightarrow> ctx \<Rightarrow> signup_req \<Rightarrow> state \<Rightarrow> response \<times> state" where
  "signup cfg cx rq s =
     (let roles = requested_roles rq;
          passwordValidation = validatePassword cfg (sr_password rq)
      in
      if \<not> validateEmail cfg (sr_email rq) then ((400, JError ''Invalid email format''), s)
      else if \<not> fst passwordValidation
      then ((400, JErrorDetails ''Password requirements not met'' (snd passwordValidation)), s)
      else if first_by_email (sr_email rq) (users s) \<noteq> None
      then ((409, JError ''Email already registered''), s)
      else
        let user = new_user cx rq roles in
        case insert_user cfg user (users s) of
          None \<Rightarrow> ((500, JError ''Failed to create account''), s)
        | Some us \<Rightarrow>
            let nut = (if ''client'' \<in> set roles
                       then nutrition s @ [\<lparr>client_id = u_id user, assigned_by = u_id user\<rparr>]
                       else nutrition s);
                tokens = generateTokens cfg (u_id user) (now cx);
                rk = redis_setex (refresh_keys s) (u_id user) week
                       \<lparr>s_token = snd tokens, s_email = u_email user, s_roles = u_roles user\<rparr>
                       (now cx);
                mail = send cfg cx (sr_email rq) Welcome (email_logs s)
            in
            if \<not> fst mail
            then ((500, JError ''Failed to create account''),
                  s\<lparr>email_logs := snd mail, refresh_keys := rk\<rparr>)
            else ((201, JUserTokens user (fst tokens) (snd tokens) ''Account created successfully''),
                  s\<lparr>users := us, nutrition := nut,
                    audit_logs := audit_logs s @ [audit_row (u_id user) ''signup'' ''user''],
                    email_logs := snd mail, refresh_keys := rk\<rparr>))"

subsection \<open>login\<close>

record login_req =
  lr_email :: string
  lr_password :: string

definition touch_online :: "int \<Rightarrow> user \<Rightarrow> user" where
  "touch_online t u = u\<lparr>updated_at := Some t, is_online := True, last_seen := Some t\<rparr>"

definition login :: "config \<Rightarrow> ctx \<Rightarrow> login_req \<Rightarrow> state \<Rightarrow> response \<times> state" where
  "login cfg cx rq s =
     (case first_by_email (toLowerCase (lr_email rq)) (users s) of
        None \<Rightarrow> ((401, JError ''Invalid credentials''), s)
      | Some user \<Rightarrow>
          if \<not> bcrypt_compare (lr_password rq) (u_password user)
          then ((401, JError ''Invalid credentials''),
                s\<lparr>audit_logs := audit_logs s @ [audit_row (u_id user) ''failed_login'' ''session'']\<rparr>)
          else if two_factor_enabled user \<and> truthy (two_factor_secret user)
          then
            let tempToken = jwt_sign (u_id user) ''2fa_temp'' (Some (u_email user))
                              (JWT_SECRET cfg) 300 (now cx)
            in ((200, JTwoFactor tempToken ''Please enter your 2FA code''),
                s\<lparr>twofa_temp_keys :=
                    redis_setex (twofa_temp_keys s) (u_id user) 300 tempToken (now cx)\<rparr>)
          else
            let tokens = generateTokens cfg (u_id user) (now cx)
            in ((200, JUserTokens user (fst tokens) (snd tokens) ''Login successful''),
                s\<lparr>users := update_by_id (u_id user) (touch_online (now cx)) (users s),
                  audit_logs := audit_logs s @ [audit_row (u_id user) ''login'' ''session''],
                  refresh_keys :=
                    redis_setex (refresh_keys s) (u_id user) week
                      \<lparr>s_token = snd tokens, s_email = u_email user, s_roles = u_roles user\<rparr>
                      (now cx)\<rparr>))"

subsection \<open>verifyTwoFactor\<close>

record verify_req =
  vr_tempToken :: token
  vr_code :: string

definition verifyTwoFactor :: "config \<Rightarrow> ctx \<Rightarrow> verify_req \<Rightarrow> state \<Rightarrow> response \<times> state" where
  "verifyTwoFactor cfg cx rq s =
     (case jwt_verify (vr_tempToken rq) (JWT_SECRET cfg) (now cx) of
        None \<Rightarrow> ((401, JError ''Invalid or expired token''), s)
      | Some decoded \<Rightarrow>
          (if c_type decoded \<noteq> ''2fa_temp'' then ((401, JError ''Invalid token type''), s)
           else
            (case redis_get (twofa_temp_keys s) (c_id decoded) (now cx) of
               None \<Rightarrow> ((401, JError ''Invalid or expired token''), s)
             | Some storedToken \<Rightarrow>
                (if storedToken = Raw [] \<or> storedToken \<noteq> vr_tempToken rq
                 then ((401, JError ''Invalid or expired token''), s)
                 else
                  (case first_by_id (c_id decoded) (users s) of
                     None \<Rightarrow> ((400, JError ''Two-factor authentication not set up''), s)
                   | Some user \<Rightarrow>
                      (case two_factor_secret user of
                         None \<Rightarrow> ((400, JError ''Two-factor authentication not set up''), s)
                       | Some secret \<Rightarrow>
                          (if secret = []
                           then ((400, JError ''Two-factor authentication not set up''), s)
                           else if \<not> totp_verify cfg secret (vr_code rq) (now cx)
                           then ((401, JError ''Invalid verification code''),
                                 s\<lparr>audit_logs := audit_logs s @
                                      [audit_row (u_id user) ''failed_2fa'' ''session'']\<rparr>)
                           else
                             (let tokens = generateTokens cfg (u_id user) (now cx)
                              in ((200, JUserTokens user (fst tokens) (snd tokens)
                                         ''2FA verification successful''),
                                 s\<lparr>users := update_by_id (u_id user) (touch_online (now cx)) (users s),
                                   audit_logs := audit_logs s @
                                      [audit_row (u_id user) ''2fa_success'' ''session''],
                                   refresh_keys :=
                                     redis_setex (refresh_keys s) (u_id user) week
                                       \<lparr>s_token = snd tokens, s_email = u_email user,
                                        s_roles = u_roles user\<rparr> (now cx),
                                   twofa_temp_keys :=
                                     redis_del (twofa_temp_keys s) (u_id user)\<rparr>)))))))))"

subsection \<open>logout\<close>

text \<open>
  \<^verbatim>\<open>req.user\<close> and \<^verbatim>\<open>req.token\<close> are set by the authentication middleware. Reading
  \<^verbatim>\<open>decoded.exp\<close> of a null \<^verbatim>\<open>decoded\<close> throws, and the handler answers from its
  \<^verbatim>\<open>catch\<close> block; with claims that have no \<^verbatim>\<open>exp\<close> the difference is NaN, and
  \<^verbatim>\<open>NaN > 0\<close> is false.
\<close>

record logout_req =
  lo_user :: user
  lo_token :: token

definition go_offline :: "int \<Rightarrow> user \<Rightarrow> user" where
  "go_offline t u = u\<lparr>is_online := False, last_seen := Some t\<rparr>"

definition logout :: "config \<Rightarrow> ctx \<Rightarrow> logout_req \<Rightarrow> state \<Rightarrow> response \<times> state" where
  "logout cfg cx rq s =
     (case jwt_decode (lo_token rq) of
        None \<Rightarrow> ((500, JError ''Logout failed''), s)
      | Some decoded \<Rightarrow>
          let bl = (case c_exp decoded of
                      None \<Rightarrow> blacklist_keys s
                    | Some e \<Rightarrow>
                        let ttl = e - now cx div 1000
                        in if ttl > 0
                           then redis_setex (blacklist_keys s) (lo_token rq) ttl ''1'' (now cx)
                           else blacklist_keys s)
          in ((200, JMessage ''Logged out successfully''),
              s\<lparr>users := update_by_id (u_id (lo_user rq)) (go_offline (now cx)) (users s),
                audit_logs := audit_logs s @ [audit_row (u_id (lo_user rq)) ''logout'' ''session''],
                refresh_keys := redis_del (refresh_keys s) (u_id (lo_user rq)),
                blacklist_keys := bl\<rparr>))"

subsection \<open>refreshTokens\<close>

text \<open>The request field is absent (\<open>None\<close>) or a string; the empty string is falsy too.\<close>

definition refreshTokens :: "config \<Rightarrow> ctx \<Rightarrow> token option \<Rightarrow> state \<Rightarrow> response \<times> state" where
  "refreshTokens cfg cx rt s =
     (case rt of
        None \<Rightarrow> ((401, JError ''Refresh token required''), s)
      | Some refreshToken \<Rightarrow>
          (if refreshToken = Raw [] then ((401, JError ''Refresh token required''), s)
           else
            (case jwt_verify refreshToken (JWT_REFRESH_SECRET cfg) (now cx) of
               None \<Rightarrow> ((401, JError ''Invalid refresh token''), s)
             | Some decoded \<Rightarrow>
                (case redis_get (refresh_keys s) (c_id decoded) (now cx) of
                   None \<Rightarrow> ((401, JError ''Invalid refresh token''), s)
                 | Some parsedData \<Rightarrow>
                    (if s_token parsedData \<noteq> refreshToken
                     then ((401, JError ''Invalid refresh token''), s)
                     else
                      (case first_by_id (c_id decoded) (users s) of
                         None \<Rightarrow> ((401, JError ''User not found''), s)
                       | Some user \<Rightarrow>
                          (let tokens = generateTokens cfg (c_id decoded) (now cx)
                           in ((200, JTokens (fst tokens) (snd tokens)),
                               s\<lparr>refresh_keys :=
                                   redis_setex (refresh_keys s) (c_id decoded) week
                                     \<lparr>s_token = snd tokens, s_email = u_email user,
                                      s_roles = u_roles user\<rparr> (now cx)\<rparr>))))))))"

subsection \<open>resetPasswordRequest and resetPassword\<close>

definition generic_ack :: string where
  "generic_ack = ''If an account exists with this email, you will receive a password reset link.''"

definition resetPasswordRequest :: "config \<Rightarrow> ctx \<Rightarrow> string \<Rightarrow> state \<Rightarrow> response \<times> state" where
  "resetPasswordRequest cfg cx email s =
     (case first_by_email (toLowerCase email) (users s) of
        None \<Rightarrow> ((200, JMessage generic_ack), s)
      | Some user \<Rightarrow>
          (let resetToken = jwt_sign (u_id user) ''password_reset'' (Some (u_email user))
                              (JWT_SECRET cfg) 3600 (now cx);
               rk = redis_setex (reset_keys s) resetToken 3600 (u_id user) (now cx);
               mail = send cfg cx (u_email user) PasswordResetMail (email_logs s)
           in
           if \<not> fst mail
           then ((500, JError ''Failed to process request''),
                 s\<lparr>email_logs := snd mail, reset_keys := rk\<rparr>)
           else ((200, JMessage generic_ack),
                 s\<lparr>audit_logs := audit_logs s @
                      [audit_row (u_id user) ''password_reset_request'' ''user''],
                   email_logs := snd mail, reset_keys := rk\<rparr>)))"

record reset_req =
  rp_token :: token
  rp_newPassword :: string

definition set_password :: "pwhash \<Rightarrow> int \<Rightarrow> user \<Rightarrow> user" where
  "set_password h t u = u\<lparr>u_password := h, updated_at := Some t\<rparr>"

definition resetPassword :: "config \<Rightarrow> ctx \<Rightarrow> reset_req \<Rightarrow> state \<Rightarrow> response \<times> state" where
  "resetPassword cfg cx rq s =
     (case jwt_verify (rp_token rq) (JWT_SECRET cfg) (now cx) of
        None \<Rightarrow> ((400, JError ''Invalid or expired reset token''), s)
      | Some decoded \<Rightarrow>
          (if c_type decoded \<noteq> ''password_reset'' then ((400, JError ''Invalid token type''), s)
           else
            (case redis_get (reset_keys s) (rp_token rq) (now cx) of
               None \<Rightarrow> ((400, JError ''Invalid or expired reset token''), s)
             | Some userId \<Rightarrow>
                (if userId = [] \<or> userId \<noteq> c_id decoded
                 then ((400, JError ''Invalid or expired reset token''), s)
                 else
                  (let passwordValidation = validatePassword cfg (rp_newPassword rq) in
                   if \<not> fst passwordValidation
                   then ((400, JErrorDetails ''Password requirements not met''
                                 (snd passwordValidation)), s)
                   else
                    (let us = update_by_id userId
                                (set_password (bcrypt_hash (rp_newPassword rq) (salt cx)) (now cx))
                                (users s);
                         s1 = s\<lparr>users := us,
                                refresh_keys := redis_del (refresh_keys s) userId,
                                reset_keys := redis_del (reset_keys s) (rp_token rq)\<rparr>
                     in
                     (case first_by_id userId us of
                        None \<Rightarrow> ((400, JError ''Failed to reset password''), s1)
                      | Some user \<Rightarrow>
                         (let mail = send cfg cx (u_email user) PasswordChanged (email_logs s) in
                          if \<not> fst mail
                          then ((400, JError ''Failed to reset password''),
                                s1\<lparr>email_logs := snd mail\<rparr>)
                          else ((200, JMessage
                                  ''Password reset successfully. Please login with your new password.''),
                                s1\<lparr>audit_logs := audit_logs s @
                                      [audit_row userId ''password_reset'' ''user''],
                                   email_logs := snd mail\<rparr>)))))))))"

section \<open>A concrete installation, for the closed theorems\<close>

text \<open>
  Stand-ins for what the repository takes from outside: an e-mail is accepted when it has
  an \<open>@\<close>, a password when it has eight characters, and the TOTP check accepts the code
  that equals the secret. SendGrid is used (no development mode) and the e-mail column is
  unique.
\<close>

definition demo_cfg :: config where
  "demo_cfg =
     \<lparr>JWT_SECRET = ''access-secret'', JWT_REFRESH_SECRET = ''refresh-secret'',
      JWT_EXPIRE = 900, JWT_REFRESH_EXPIRE = 604800, isDevelopment = False,
      validateEmail = (\<lambda>e. CHR ''@'' \<in> set e),
      validatePassword = (\<lambda>p. if 8 \<le> length p then (True, []) else (False, [''too short''])),
      totp_verify = (\<lambda>secret code t. code = secret),
      users_email_unique = True\<rparr>"

definition empty_state :: state where
  "empty_state =
     \<lparr>users = [], nutrition = [], audit_logs = [], email_logs = [],
      refresh_keys = Map.empty, twofa_temp_keys = Map.empty,
      blacklist_keys = Map.empty, reset_keys = Map.empty\<rparr>"

definition at_time :: "int \<Rightarrow> ctx" where
  "at_time t = \<lparr>now = t, salt = 7, new_id = ''u1'', sendgrid_ok = True\<rparr>"

definition alice_req :: signup_req where
  "alice_req = \<lparr>sr_email = ''A@B.com'', sr_password = ''Str0ng!Pass'', sr_name = ''A'',
                 sr_phone = ''555'', sr_roles = Some [''client'']\<rparr>"

definition alice :: user where
  "alice =
     \<lparr>u_id = ''u1'', u_email = ''a@b.com'', u_password = Bcrypt ''Str0ng!Pass'' 7,
      u_name = ''A'', u_phone = ''555'', u_roles = [''client''],
      u_subscription_plan = ''basic'', two_factor_enabled = False,
      two_factor_secret = None, is_online = False, last_seen = None, updated_at = None\<rparr>"

definition alice_access :: token where
  "alice_access =
     Jwt \<lparr>c_id = ''u1'', c_type = ''access'', c_email = None, c_iat = 1, c_exp = Some 901\<rparr>
       ''access-secret''"

definition alice_refresh :: token where
  "alice_refresh =
     Jwt \<lparr>c_id = ''u1'', c_type = ''refresh'', c_email = None, c_iat = 1, c_exp = Some 604801\<rparr>
       ''refresh-secret''"

text \<open>The state after Alice signed up at time 1000 (milliseconds) on the empty state.\<close>

definition registered :: state where
  "registered =
     \<lparr>users = [alice],
      nutrition = [\<lparr>client_id = ''u1'', assigned_by = ''u1''\<rparr>],
      audit_logs = [\<lparr>a_user_id = ''u1'', a_action = ''signup'', a_resource = ''user''\<rparr>],
      email_logs = [\<lparr>el_to = ''A@B.com'', el_subject = Welcome, el_status = ''sent''\<rparr>],
      refresh_keys =
        [''u1'' \<mapsto> \<lparr>e_value = \<lparr>s_token = alice_refresh, s_email = ''a@b.com'',
                               s_roles = [''client'']\<rparr>,
                    e_ttl = 604800, e_set_at = 1000\<rparr>],
      twofa_temp_keys = Map.empty, blacklist_keys = Map.empty, reset_keys = Map.empty\<rparr>"

text \<open>Logout requests of Alice: with her access token, and with text that is no JWT.\<close>

definition alice_logout :: logout_req where
  "alice_logout = \<lparr>lo_user = alice, lo_token = alice_access\<rparr>"

definition garbage_logout :: logout_req where
  "garbage_logout = \<lparr>lo_user = alice, lo_token = Raw ''not-a-jwt''\<rparr>"

text \<open>The state after a rotation of Alice's refresh token at time 1500, in the second of its issue.\<close>

definition rotated_same_second :: state where
  "rotated_same_second =
     registered\<lparr>refresh_keys :=
       [''u1'' \<mapsto> \<lparr>e_value = \<lparr>s_token = alice_refresh, s_email = ''a@b.com'',
                              s_roles = [''client'']\<rparr>,
                   e_ttl = 604800, e_set_at = 1500\<rparr>]\<rparr>"




text \<open>Password reset: the token minted at time 2000, the state that holds its mirror, a request.\<close>

definition alice_reset :: token where
  "alice_reset =
     Jwt \<lparr>c_id = ''u1'', c_type = ''password_reset'', c_email = Some ''a@b.com'', c_iat = 2,
          c_exp = Some 3602\<rparr> ''access-secret''"

definition reset_requested :: state where
  "reset_requested =
     registered\<lparr>
       audit_logs := audit_logs registered @
         [\<lparr>a_user_id = ''u1'', a_action = ''password_reset_request'', a_resource = ''user''\<rparr>],
       email_logs := email_logs registered @
         [\<lparr>el_to = ''a@b.com'', el_subject = PasswordResetMail, el_status = ''sent''\<rparr>],
       reset_keys := [alice_reset \<mapsto> \<lparr>e_value = ''u1'', e_ttl = 3600, e_set_at = 2000\<rparr>]\<rparr>"

definition alice_reset_req :: reset_req where
  "alice_reset_req = \<lparr>rp_token = alice_reset, rp_newPassword = ''N3w!Passw0rd''\<rparr>"

definition reset_done :: state where
  "reset_done = snd (resetPassword demo_cfg (at_time 3000) alice_reset_req reset_requested)"

text \<open>
  After that consumption, a new request at time 3500: it mints another token, and the
  mirror of the first stays deleted.
\<close>

definition requested_later :: state where
  "requested_later = snd (resetPasswordRequest demo_cfg (at_time 3500) ''a@b.com'' reset_done)"

text \<open>
  Another course of events, all within the second of the token's issue: the token is
  consumed at time 2300, and a new request at time 2600 follows.
\<close>

definition consumed_early :: state where
  "consumed_early = snd (resetPassword demo_cfg (at_time 2300) alice_reset_req reset_requested)"

definition requested_again :: state where
  "requested_again = snd (resetPasswordRequest demo_cfg (at_time 2600) ''a@b.com'' consumed_early)"

text \<open>
  Two principals with the 2FA flag set: Carol with a stored secret, Dave with none; and a
  state in which each has a login challenge pending since time 7000.
\<close>

definition carol :: user where
  "carol =
     \<lparr>u_id = ''u2'', u_email = ''carol@b.com'', u_password = Bcrypt ''C4rol!Pass'' 3,
      u_name = ''C'', u_phone = ''556'', u_roles = [''client''],
      u_subscription_plan = ''basic'', two_factor_enabled = True,
      two_factor_secret = Some ''JBSWY3DPEHPK3PXP'', is_online = False, last_seen = None,
      updated_at = None\<rparr>"

definition dave :: user where
  "dave =
     \<lparr>u_id = ''u3'', u_email = ''dave@b.com'', u_password = Bcrypt ''D4ve!Passw'' 4,
      u_name = ''D'', u_phone = ''557'', u_roles = [''specialist''],
      u_subscription_plan = ''basic'', two_factor_enabled = True,
      two_factor_secret = None, is_online = False, last_seen = None, updated_at = None\<rparr>"

definition challenge :: "user \<Rightarrow> token" where
  "challenge u =
     Jwt \<lparr>c_id = u_id u, c_type = ''2fa_temp'', c_email = Some (u_email u), c_iat = 7,
          c_exp = Some 307\<rparr> ''access-secret''"

definition two_factor_state :: state where
  "two_factor_state = empty_state\<lparr>users := [carol, dave]\<rparr>"

definition pending_state :: state where
  "pending_state =
     two_factor_state\<lparr>twofa_temp_keys :=
       [''u2'' \<mapsto> \<lparr>e_value = challenge carol, e_ttl = 300, e_set_at = 7000\<rparr>,
        ''u3'' \<mapsto> \<lparr>e_value = challenge dave, e_ttl = 300, e_set_at = 7000\<rparr>]\<rparr>"

definition carol_login :: login_req where
  "carol_login = \<lparr>lr_email = ''Carol@B.com'', lr_password = ''C4rol!Pass''\<rparr>"

definition dave_login :: login_req where
  "dave_login = \<lparr>lr_email = ''dave@b.com'', lr_password = ''D4ve!Passw''\<rparr>"

definition nobody_login :: login_req where
  "nobody_login = \<lparr>lr_email = ''nobody@b.com'', lr_password = ''Str0ng!Pass''\<rparr>"

definition alice_wrong_login :: login_req where
  "alice_wrong_login = \<lparr>lr_email = ''a@b.com'', lr_password = ''wrong-password''\<rparr>"

text \<open>A context in which SendGrid refuses the message.\<close>

definition mail_down :: "int \<Rightarrow> ctx" where
  "mail_down t = (at_time t)\<lparr>sendgrid_ok := False\<rparr>"

section \<open>Facts about the store and the tokens\<close>

lemma redis_get_del: "redis_get (redis_del m k) k t = None"
  by (simp add: redis_get_def redis_del_def)


lemma jwt_verify_claims:
  "jwt_verify tok secret t = Some c \<Longrightarrow> jwt_verify tok secret t' = Some c' \<Longrightarrow> c' = c"
  by (cases tok) (auto split: if_splits option.splits)

lemma jwt_sign_iat: "jwt_sign i ty em k e t = Jwt c k' \<Longrightarrow> c_iat c = t div 1000"
  by (auto simp: jwt_sign_def)

lemma jwt_verify_not_empty: "jwt_verify tok secret t = Some c \<Longrightarrow> tok \<noteq> Raw []"
  by (cases tok) auto

section \<open>Runs of the concrete installation\<close>

lemma signup_alice:
  "signup demo_cfg (at_time 1000) alice_req empty_state =
     ((201, JUserTokens alice alice_access alice_refresh ''Account created successfully''),
      registered)"
  by (simp add: signup_def demo_cfg_def at_time_def alice_req_def empty_state_def registered_def
      alice_def alice_access_def alice_refresh_def
      requested_roles_def new_user_def toLowerCase_def lower_char_def
      bcrypt_hash_def first_by_email_def insert_user_def generateTokens_def jwt_sign_def
      redis_setex_def send_def audit_row_def week_def Let_def)

lemma rotate_same_second:
  "refreshTokens demo_cfg (at_time 1500) (Some alice_refresh) registered =
     ((200, JTokens alice_access alice_refresh), rotated_same_second)"
  by (simp add: refreshTokens_def demo_cfg_def at_time_def registered_def alice_def alice_access_def
      alice_refresh_def rotated_same_second_def
      redis_get_def first_by_id_def generateTokens_def jwt_sign_def redis_setex_def
      week_def Let_def)


lemma request_reset:
  "resetPasswordRequest demo_cfg (at_time 2000) ''A@b.com'' registered =
     ((200, JMessage generic_ack), reset_requested)"
  by (simp add: resetPasswordRequest_def demo_cfg_def at_time_def registered_def alice_def
      alice_reset_def reset_requested_def toLowerCase_def lower_char_def first_by_email_def
      jwt_sign_def redis_setex_def send_def audit_row_def generic_ack_def Let_def)

lemma reset_alice:
  "fst (resetPassword demo_cfg (at_time 3000) alice_reset_req reset_requested) =
     (200, JMessage ''Password reset successfully. Please login with your new password.'')"
  by (simp add: resetPassword_def demo_cfg_def at_time_def alice_reset_req_def alice_reset_def
      reset_requested_def registered_def alice_def redis_get_def update_by_id_def
      set_password_def bcrypt_hash_def redis_del_def first_by_id_def send_def audit_row_def
      Let_def)

section \<open>The claims\<close>

text \<open>
  C1. The claim: a second signup with an e-mail already registered, in any character
  case, returns Conflict (409) and changes nothing. The handler looks the raw e-mail up
  and stores it lower-cased, so the second of two equal requests with the e-mail
  \<open>A@B.com\<close> finds no row: under a unique e-mail column the insert throws and the
  answer is 500, without the constraint a second principal with the same e-mail is
  created and the answer is 201. In neither case is it 409.
\<close>

theorem signup_same_email_twice:
  "signup demo_cfg (at_time 1000) alice_req empty_state =
     ((201, JUserTokens alice alice_access alice_refresh ''Account created successfully''),
      registered) \<and>
   signup demo_cfg (at_time 2000) alice_req registered =
     ((500, JError ''Failed to create account''), registered) \<and>
   fst (fst (signup (demo_cfg\<lparr>users_email_unique := False\<rparr>) (at_time 2000) alice_req
     registered)) = 201 \<and>
   map u_email (users (snd (signup (demo_cfg\<lparr>users_email_unique := False\<rparr>) (at_time 2000)
     alice_req registered))) = [''a@b.com'', ''a@b.com'']"
  by (simp add: signup_def demo_cfg_def at_time_def alice_req_def empty_state_def registered_def
      alice_def alice_access_def alice_refresh_def
      requested_roles_def new_user_def toLowerCase_def lower_char_def
      bcrypt_hash_def first_by_email_def insert_user_def generateTokens_def jwt_sign_def
      redis_setex_def send_def audit_row_def week_def Let_def)

text \<open>
  What the handler does guarantee: 409 is the answer exactly when both validations pass
  and a stored e-mail equals the e-mail of the request character by character, and then
  the state is unchanged.
\<close>

lemma signup_conflict_iff:
  "fst (fst (signup cfg cx rq s)) = 409 \<longleftrightarrow>
     validateEmail cfg (sr_email rq) \<and> fst (validatePassword cfg (sr_password rq)) \<and>
     first_by_email (sr_email rq) (users s) \<noteq> None"
  by (simp add: signup_def Let_def split: option.splits)

lemma signup_conflict_unchanged:
  "fst (fst (signup cfg cx rq s)) = 409 \<Longrightarrow>
     signup cfg cx rq s = ((409, JError ''Email already registered''), s)"
  by (simp add: signup_def Let_def split: option.splits if_splits)




text \<open>A rotation in any other second than that of the issue of \<open>rt1\<close> returns a new string.\<close>

lemma rotation_other_second_new:
  assumes ok: "refreshTokens cfg cx (Some rt1) s = ((200, JTokens at2 rt2), s')"
    and rt1: "rt1 = Jwt c k"
    and other: "c_iat c \<noteq> now cx div 1000"
  shows "rt2 \<noteq> rt1"
proof
  assume eq: "rt2 = rt1"
  from ok have "\<exists>i. rt2 = jwt_sign i ''refresh'' None (JWT_REFRESH_SECRET cfg)
      (JWT_REFRESH_EXPIRE cfg) (now cx)"
    by (auto simp: refreshTokens_def Let_def generateTokens_def split: option.splits if_splits)
  then obtain i where "rt2 = jwt_sign i ''refresh'' None (JWT_REFRESH_SECRET cfg)
      (JWT_REFRESH_EXPIRE cfg) (now cx)"
    by blast
  with eq rt1 have "c_iat c = now cx div 1000"
    using jwt_sign_iat by metis
  with other show False by simp
qed

text \<open>
  C3 (amended). If \<open>resetPassword\<close> succeeds with a token, the entry
  \<^verbatim>\<open>reset_<token>\<close> is deleted by that call, and a later \<open>resetPassword\<close> with the same
  token string fails with 400 \<open>Invalid or expired reset token\<close> and changes nothing, on
  the resulting state and on every state in which that entry is absent (or expired).
\<close>

theorem reset_token_consumed:
  assumes ok: "resetPassword cfg cx rq s = ((200, b), s')"
    and same: "rp_token rq' = rp_token rq"
    and absent: "redis_get (reset_keys s'') (rp_token rq) (now cx') = None"
  shows "reset_keys s' = (reset_keys s)(rp_token rq := None) \<and>
         resetPassword cfg cx' rq' s' = ((400, JError ''Invalid or expired reset token''), s') \<and>
         resetPassword cfg cx' rq' s'' = ((400, JError ''Invalid or expired reset token''), s'')"
proof -
  from ok have "\<exists>d. jwt_verify (rp_token rq) (JWT_SECRET cfg) (now cx) = Some d \<and>
      c_type d = ''password_reset'' \<and> reset_keys s' = (reset_keys s)(rp_token rq := None)"
    by (auto simp: resetPassword_def Let_def redis_del_def split: option.splits if_splits)
  then obtain d where
    v: "jwt_verify (rp_token rq) (JWT_SECRET cfg) (now cx) = Some d"
    and ty: "c_type d = ''password_reset''"
    and gone: "reset_keys s' = (reset_keys s)(rp_token rq := None)"
    by blast
  from gone have absent': "redis_get (reset_keys s') (rp_token rq) (now cx') = None"
    by (simp add: redis_get_def)
  have fails: "resetPassword cfg cx' rq' z = ((400, JError ''Invalid or expired reset token''), z)"
    if "redis_get (reset_keys z) (rp_token rq) (now cx') = None" for z
  proof (cases "jwt_verify (rp_token rq) (JWT_SECRET cfg) (now cx')")
    case None
    with same show ?thesis by (simp add: resetPassword_def)
  next
    case (Some d')
    have "d' = d" using jwt_verify_claims[OF v Some] .
    with Some same ty that show ?thesis
      by (simp add: resetPassword_def)
  qed
  from gone fails[OF absent'] fails[OF absent] show ?thesis by simp
qed

theorem reset_token_consumed_witness:
  "resetPassword demo_cfg (at_time 3000) alice_reset_req reset_requested =
     ((200, JMessage ''Password reset successfully. Please login with your new password.''),
      reset_done) \<and>
   rp_token (alice_reset_req\<lparr>rp_newPassword := ''An0ther!Pass''\<rparr>) = rp_token alice_reset_req \<and>
   redis_get (reset_keys requested_later) (rp_token alice_reset_req) (now (at_time 4000)) = None \<and>
   reset_keys reset_done = (reset_keys reset_requested)(rp_token alice_reset_req := None) \<and>
   resetPassword demo_cfg (at_time 4000) (alice_reset_req\<lparr>rp_newPassword := ''An0ther!Pass''\<rparr>)
     reset_done = ((400, JError ''Invalid or expired reset token''), reset_done) \<and>
   resetPassword demo_cfg (at_time 4000) (alice_reset_req\<lparr>rp_newPassword := ''An0ther!Pass''\<rparr>)
     requested_later = ((400, JError ''Invalid or expired reset token''), requested_later)"
proof -
  have ok: "resetPassword demo_cfg (at_time 3000) alice_reset_req reset_requested =
     ((200, JMessage ''Password reset successfully. Please login with your new password.''),
      reset_done)"
    using reset_alice by (simp add: reset_done_def prod_eq_iff)
  have same: "rp_token (alice_reset_req\<lparr>rp_newPassword := ''An0ther!Pass''\<rparr>) =
      rp_token alice_reset_req"
    by simp
  have absent: "redis_get (reset_keys requested_later) (rp_token alice_reset_req)
      (now (at_time 4000)) = None"
    by (simp add: requested_later_def reset_done_def resetPasswordRequest_def resetPassword_def
        demo_cfg_def at_time_def alice_reset_req_def alice_reset_def reset_requested_def
        registered_def alice_def redis_get_def update_by_id_def set_password_def bcrypt_hash_def
        redis_del_def first_by_id_def first_by_email_def toLowerCase_def lower_char_def
        jwt_sign_def redis_setex_def send_def audit_row_def generic_ack_def Let_def)
  show ?thesis
    using ok same absent reset_token_consumed [OF ok same absent] by simp
qed

text \<open>
  C3 as stated fails: the reset token is a function of the principal, the secret and the
  second of issue, so a new request within that second mints the token consumed before
  and writes its mirror again. Here the token is requested at time 2000 and consumed at
  2300; after the request at 2600 the consumption at 2900 with the same token succeeds too.
\<close>

theorem reset_token_reminted_same_second:
  "resetPasswordRequest demo_cfg (at_time 2000) ''A@b.com'' registered =
     ((200, JMessage generic_ack), reset_requested) \<and>
   fst (resetPassword demo_cfg (at_time 2300) alice_reset_req reset_requested) =
     (200, JMessage ''Password reset successfully. Please login with your new password.'') \<and>
   reset_keys consumed_early alice_reset = None \<and>
   fst (resetPasswordRequest demo_cfg (at_time 2600) ''a@b.com'' consumed_early) =
     (200, JMessage generic_ack) \<and>
   reset_keys requested_again alice_reset =
     Some \<lparr>e_value = ''u1'', e_ttl = 3600, e_set_at = 2600\<rparr> \<and>
   fst (resetPassword demo_cfg (at_time 2900) alice_reset_req requested_again) =
     (200, JMessage ''Password reset successfully. Please login with your new password.'')"
  by (simp add: requested_again_def consumed_early_def resetPasswordRequest_def resetPassword_def
      demo_cfg_def at_time_def alice_reset_req_def alice_reset_def reset_requested_def
      registered_def alice_def redis_get_def update_by_id_def set_password_def bcrypt_hash_def
      redis_del_def first_by_id_def first_by_email_def toLowerCase_def lower_char_def
      jwt_sign_def redis_setex_def send_def audit_row_def generic_ack_def Let_def)

text \<open>
  Which calls can write the entry again. A request in another second than that of the
  token's issue leaves an absent entry absent; \<open>resetPassword\<close> only deletes; the other
  handlers do not touch the entries \<^verbatim>\<open>reset_<token>\<close>.
\<close>

lemma request_other_second_keeps_absent:
  assumes absent: "reset_keys s tok = None"
    and tok: "tok = Jwt c k"
    and other: "c_iat c \<noteq> now cx div 1000"
  shows "reset_keys (snd (resetPasswordRequest cfg cx email s)) tok = None"
proof (cases "first_by_email (toLowerCase email) (users s)")
  case None
  with absent show ?thesis by (simp add: resetPasswordRequest_def)
next
  case (Some u)
  let ?new = "jwt_sign (u_id u) ''password_reset'' (Some (u_email u)) (JWT_SECRET cfg) 3600 (now cx)"
  have "?new \<noteq> tok"
  proof
    assume "?new = tok"
    with tok have "c_iat c = now cx div 1000" using jwt_sign_iat by metis
    with other show False by simp
  qed
  with Some absent show ?thesis
    by (simp add: resetPasswordRequest_def Let_def redis_setex_def)
qed

lemma reset_only_deletes:
  "reset_keys s tok = None \<Longrightarrow> reset_keys (snd (resetPassword cfg cx rq s)) tok = None"
  by (simp add: resetPassword_def Let_def redis_del_def split: option.splits)

lemma other_handlers_keep_reset_keys:
  "reset_keys (snd (signup cfg cx sq s)) = reset_keys s"
  "reset_keys (snd (login cfg cx lq s)) = reset_keys s"
  "reset_keys (snd (verifyTwoFactor cfg cx vq s)) = reset_keys s"
  "reset_keys (snd (logout cfg cx oq s)) = reset_keys s"
  "reset_keys (snd (refreshTokens cfg cx rt s)) = reset_keys s"
  by (simp_all add: signup_def login_def verifyTwoFactor_def logout_def refreshTokens_def
      Let_def split: option.splits)

text \<open>
  C4 (amended). With a challenge token that verifies, has the type \<open>2fa_temp\<close> and equals
  the stored copy, the two failures have different answers: a stored secret with a rejected
  code gives 401 \<open>Invalid verification code\<close> and one \<open>failed_2fa\<close> audit row; a
  missing (null or empty) secret gives 400 \<open>Two-factor authentication not set up\<close> and
  no audit row.
\<close>

theorem verify_failures_differ:
  assumes v: "jwt_verify (vr_tempToken rq) (JWT_SECRET cfg) (now cx) = Some d"
    and ty: "c_type d = ''2fa_temp''"
    and stored: "redis_get (twofa_temp_keys s) (c_id d) (now cx) = Some (vr_tempToken rq)"
    and user: "first_by_id (c_id d) (users s) = Some u"
  shows "(two_factor_secret u = Some secret \<and> secret \<noteq> [] \<and>
            \<not> totp_verify cfg secret (vr_code rq) (now cx) \<longrightarrow>
          verifyTwoFactor cfg cx rq s =
            ((401, JError ''Invalid verification code''),
             s\<lparr>audit_logs := audit_logs s @
                 [\<lparr>a_user_id = u_id u, a_action = ''failed_2fa'', a_resource = ''session''\<rparr>]\<rparr>)) \<and>
         (\<not> truthy (two_factor_secret u) \<longrightarrow>
          verifyTwoFactor cfg cx rq s =
            ((400, JError ''Two-factor authentication not set up''), s))"
  using assms jwt_verify_not_empty[OF v]
  by (auto simp: verifyTwoFactor_def truthy_def audit_row_def split: option.splits)

theorem verify_failures_differ_witness:
  "jwt_verify (challenge carol) (JWT_SECRET demo_cfg) (now (at_time 8000)) =
     Some \<lparr>c_id = ''u2'', c_type = ''2fa_temp'', c_email = Some ''carol@b.com'', c_iat = 7,
           c_exp = Some 307\<rparr> \<and>
   redis_get (twofa_temp_keys pending_state) ''u2'' (now (at_time 8000)) = Some (challenge carol) \<and>
   first_by_id ''u2'' (users pending_state) = Some carol \<and>
   two_factor_secret carol = Some ''JBSWY3DPEHPK3PXP'' \<and>
   \<not> totp_verify demo_cfg ''JBSWY3DPEHPK3PXP'' ''000000'' (now (at_time 8000)) \<and>
   verifyTwoFactor demo_cfg (at_time 8000)
       \<lparr>vr_tempToken = challenge carol, vr_code = ''000000''\<rparr> pending_state =
     ((401, JError ''Invalid verification code''),
      pending_state\<lparr>audit_logs :=
        [\<lparr>a_user_id = ''u2'', a_action = ''failed_2fa'', a_resource = ''session''\<rparr>]\<rparr>) \<and>
   jwt_verify (challenge dave) (JWT_SECRET demo_cfg) (now (at_time 8000)) =
     Some \<lparr>c_id = ''u3'', c_type = ''2fa_temp'', c_email = Some ''dave@b.com'', c_iat = 7,
           c_exp = Some 307\<rparr> \<and>
   redis_get (twofa_temp_keys pending_state) ''u3'' (now (at_time 8000)) = Some (challenge dave) \<and>
   first_by_id ''u3'' (users pending_state) = Some dave \<and>
   \<not> truthy (two_factor_secret dave) \<and>
   verifyTwoFactor demo_cfg (at_time 8000)
       \<lparr>vr_tempToken = challenge dave, vr_code = ''000000''\<rparr> pending_state =
     ((400, JError ''Two-factor authentication not set up''), pending_state)"
proof -
  let ?cx = "at_time 8000"
  let ?rc = "\<lparr>vr_tempToken = challenge carol, vr_code = ''000000''\<rparr>"
  let ?rd = "\<lparr>vr_tempToken = challenge dave, vr_code = ''000000''\<rparr>"
  let ?dc = "\<lparr>c_id = ''u2'', c_type = ''2fa_temp'', c_email = Some ''carol@b.com'', c_iat = 7,
           c_exp = Some 307\<rparr>"
  let ?dd = "\<lparr>c_id = ''u3'', c_type = ''2fa_temp'', c_email = Some ''dave@b.com'', c_iat = 7,
           c_exp = Some 307\<rparr>"
  have vc: "jwt_verify (vr_tempToken ?rc) (JWT_SECRET demo_cfg) (now ?cx) = Some ?dc"
    by (simp add: demo_cfg_def at_time_def challenge_def carol_def)
  have vd: "jwt_verify (vr_tempToken ?rd) (JWT_SECRET demo_cfg) (now ?cx) = Some ?dd"
    by (simp add: demo_cfg_def at_time_def challenge_def dave_def)
  have tc: "c_type ?dc = ''2fa_temp''" and td: "c_type ?dd = ''2fa_temp''"
    by simp_all
  have sc: "redis_get (twofa_temp_keys pending_state) (c_id ?dc) (now ?cx) =
      Some (vr_tempToken ?rc)"
    by (simp add: at_time_def pending_state_def two_factor_state_def empty_state_def challenge_def carol_def
      dave_def redis_get_def)
  have sd: "redis_get (twofa_temp_keys pending_state) (c_id ?dd) (now ?cx) =
      Some (vr_tempToken ?rd)"
    by (simp add: at_time_def pending_state_def two_factor_state_def empty_state_def challenge_def carol_def
      dave_def redis_get_def)
  have uc: "first_by_id (c_id ?dc) (users pending_state) = Some carol"
    by (simp add: pending_state_def two_factor_state_def empty_state_def challenge_def carol_def
      dave_def first_by_id_def)
  have ud: "first_by_id (c_id ?dd) (users pending_state) = Some dave"
    by (simp add: pending_state_def two_factor_state_def empty_state_def challenge_def carol_def
      dave_def first_by_id_def)
  have secret: "two_factor_secret carol = Some ''JBSWY3DPEHPK3PXP''"
    and code: "\<not> totp_verify demo_cfg ''JBSWY3DPEHPK3PXP'' ''000000'' (now ?cx)"
    and none: "\<not> truthy (two_factor_secret dave)"
    and ids: "u_id carol = ''u2''" "audit_logs pending_state = []"
    by (simp_all add: demo_cfg_def at_time_def pending_state_def two_factor_state_def empty_state_def challenge_def carol_def
      dave_def truthy_def)
  show ?thesis
    using vc vd sc sd uc ud secret code none ids
      verify_failures_differ [OF vc tc sc uc, of "''JBSWY3DPEHPK3PXP''"]
      verify_failures_differ [OF vd td sd ud]
    by simp
qed

text \<open>
  C4 as stated fails: with the same valid challenge mechanism and the same code, Carol
  (secret stored, code wrong) and Dave (no secret) get different answers.
\<close>

theorem verify_no_secret_distinguishable:
  "fst (verifyTwoFactor demo_cfg (at_time 8000)
       \<lparr>vr_tempToken = challenge carol, vr_code = ''000000''\<rparr> pending_state) =
     (401, JError ''Invalid verification code'') \<and>
   fst (verifyTwoFactor demo_cfg (at_time 8000)
       \<lparr>vr_tempToken = challenge dave, vr_code = ''000000''\<rparr> pending_state) =
     (400, JError ''Two-factor authentication not set up'')"
  by (simp add: verifyTwoFactor_def demo_cfg_def at_time_def pending_state_def two_factor_state_def empty_state_def challenge_def carol_def
      dave_def
      redis_get_def first_by_id_def audit_row_def)

text \<open>
  C5 (amended). For a signup that passes both validations, finds no row with its e-mail and
  whose insert is accepted: when the welcome e-mail is dispatched (development mode, or
  SendGrid accepts it) the answer is 201 and the principal, its nutrition row (for the
  role \<open>client\<close>) and the audit row persist; when the dispatch fails the handler answers
  500 \<open>Failed to create account\<close> and the transaction is rolled back, so the tables
  \<^verbatim>\<open>users\<close>, \<^verbatim>\<open>nutrition\<close> and \<^verbatim>\<open>audit_logs\<close> are as before.
\<close>

theorem signup_depends_on_welcome_mail:
  assumes "validateEmail cfg (sr_email rq)"
    and "fst (validatePassword cfg (sr_password rq))"
    and "first_by_email (sr_email rq) (users s) = None"
    and "insert_user cfg (new_user cx rq (requested_roles rq)) (users s) = Some us"
  shows "(isDevelopment cfg \<or> sendgrid_ok cx \<longrightarrow>
            fst (signup cfg cx rq s) =
              (201, JUserTokens (new_user cx rq (requested_roles rq))
                      (fst (generateTokens cfg (new_id cx) (now cx)))
                      (snd (generateTokens cfg (new_id cx) (now cx)))
                      ''Account created successfully'') \<and>
            users (snd (signup cfg cx rq s)) = users s @ [new_user cx rq (requested_roles rq)] \<and>
            nutrition (snd (signup cfg cx rq s)) =
              (if ''client'' \<in> set (requested_roles rq)
               then nutrition s @ [\<lparr>client_id = new_id cx, assigned_by = new_id cx\<rparr>]
               else nutrition s) \<and>
            audit_logs (snd (signup cfg cx rq s)) =
              audit_logs s @ [\<lparr>a_user_id = new_id cx, a_action = ''signup'', a_resource = ''user''\<rparr>]) \<and>
         (\<not> isDevelopment cfg \<and> \<not> sendgrid_ok cx \<longrightarrow>
            fst (signup cfg cx rq s) = (500, JError ''Failed to create account'') \<and>
            users (snd (signup cfg cx rq s)) = users s \<and>
            nutrition (snd (signup cfg cx rq s)) = nutrition s \<and>
            audit_logs (snd (signup cfg cx rq s)) = audit_logs s)"
proof -
  have id: "u_id (new_user cx rq (requested_roles rq)) = new_id cx"
    by (simp add: new_user_def)
  from assms(4) have us: "us = users s @ [new_user cx rq (requested_roles rq)]"
    by (auto simp: insert_user_def split: if_splits)
  show ?thesis
    using assms id us
    by (simp add: signup_def Let_def send_def audit_row_def)
qed

theorem signup_depends_on_welcome_mail_witness:
  "validateEmail demo_cfg (sr_email alice_req) \<and>
   fst (validatePassword demo_cfg (sr_password alice_req)) \<and>
   first_by_email (sr_email alice_req) (users empty_state) = None \<and>
   insert_user demo_cfg (new_user (at_time 1000) alice_req (requested_roles alice_req))
     (users empty_state) = Some [alice] \<and>
   new_user (mail_down 1000) alice_req (requested_roles alice_req) = alice \<and>
   sendgrid_ok (at_time 1000) \<and>
   fst (fst (signup demo_cfg (at_time 1000) alice_req empty_state)) = 201 \<and>
   users (snd (signup demo_cfg (at_time 1000) alice_req empty_state)) = [alice] \<and>
   \<not> isDevelopment demo_cfg \<and> \<not> sendgrid_ok (mail_down 1000) \<and>
   fst (signup demo_cfg (mail_down 1000) alice_req empty_state) =
     (500, JError ''Failed to create account'') \<and>
   users (snd (signup demo_cfg (mail_down 1000) alice_req empty_state)) = [] \<and>
   nutrition (snd (signup demo_cfg (mail_down 1000) alice_req empty_state)) = [] \<and>
   audit_logs (snd (signup demo_cfg (mail_down 1000) alice_req empty_state)) = []"
proof -
  have e: "validateEmail demo_cfg (sr_email alice_req)"
    and p: "fst (validatePassword demo_cfg (sr_password alice_req))"
    and f: "first_by_email (sr_email alice_req) (users empty_state) = None"
    by (simp_all add: demo_cfg_def alice_req_def empty_state_def first_by_email_def)
  have u: "new_user (at_time 1000) alice_req (requested_roles alice_req) = alice"
    and u': "new_user (mail_down 1000) alice_req (requested_roles alice_req) = alice"
    by (simp_all add: at_time_def mail_down_def alice_req_def alice_def new_user_def
        requested_roles_def toLowerCase_def lower_char_def bcrypt_hash_def)
  have i: "insert_user demo_cfg (new_user (at_time 1000) alice_req (requested_roles alice_req))
      (users empty_state) = Some [alice]"
    and i': "insert_user demo_cfg (new_user (mail_down 1000) alice_req (requested_roles alice_req))
      (users empty_state) = Some [alice]"
    unfolding u u'
    by (simp_all add: demo_cfg_def empty_state_def alice_def insert_user_def first_by_email_def)
  have more: "sendgrid_ok (at_time 1000)" "\<not> isDevelopment demo_cfg"
    "\<not> sendgrid_ok (mail_down 1000)" "users empty_state = []" "nutrition empty_state = []"
    "audit_logs empty_state = []"
    by (simp_all add: at_time_def mail_down_def demo_cfg_def empty_state_def)
  show ?thesis
    using e p f i u u' more
      signup_depends_on_welcome_mail [OF e p f i]
      signup_depends_on_welcome_mail [OF e p f i']
    by simp
qed

text \<open>
  C5 as stated fails: the same signup that succeeds when SendGrid accepts the welcome
  e-mail answers 500 when SendGrid refuses it, and no principal is stored.
\<close>

theorem signup_fails_when_mail_fails:
  "fst (signup demo_cfg (at_time 1000) alice_req empty_state) =
     (201, JUserTokens alice alice_access alice_refresh ''Account created successfully'') \<and>
   fst (signup demo_cfg (mail_down 1000) alice_req empty_state) =
     (500, JError ''Failed to create account'') \<and>
   users (snd (signup demo_cfg (mail_down 1000) alice_req empty_state)) = []"
  by (simp add: signup_def mail_down_def demo_cfg_def at_time_def alice_req_def empty_state_def registered_def
      alice_def alice_access_def alice_refresh_def
      requested_roles_def new_user_def toLowerCase_def lower_char_def
      bcrypt_hash_def first_by_email_def insert_user_def generateTokens_def jwt_sign_def
      redis_setex_def send_def audit_row_def week_def Let_def)

text \<open>
  C6. A login whose e-mail matches no principal and a login whose password is wrong for
  the principal found get the same answer, 401 \<open>Invalid credentials\<close>.
\<close>

theorem login_failures_same_answer:
  assumes "first_by_email (toLowerCase (lr_email rq1)) (users s1) = None"
    and "first_by_email (toLowerCase (lr_email rq2)) (users s2) = Some u"
    and "\<not> bcrypt_compare (lr_password rq2) (u_password u)"
  shows "fst (login cfg cx1 rq1 s1) = (401, JError ''Invalid credentials'') \<and>
         fst (login cfg cx2 rq2 s2) = fst (login cfg cx1 rq1 s1)"
  using assms by (simp add: login_def)

theorem login_failures_same_answer_witness:
  "first_by_email (toLowerCase (lr_email nobody_login)) (users registered) = None \<and>
   first_by_email (toLowerCase (lr_email alice_wrong_login)) (users registered) = Some alice \<and>
   \<not> bcrypt_compare (lr_password alice_wrong_login) (u_password alice) \<and>
   fst (login demo_cfg (at_time 2000) nobody_login registered) =
     (401, JError ''Invalid credentials'') \<and>
   fst (login demo_cfg (at_time 3000) alice_wrong_login registered) =
     fst (login demo_cfg (at_time 2000) nobody_login registered)"
proof -
  have a: "first_by_email (toLowerCase (lr_email nobody_login)) (users registered) = None"
    and b: "first_by_email (toLowerCase (lr_email alice_wrong_login)) (users registered) =
      Some alice"
    and c: "\<not> bcrypt_compare (lr_password alice_wrong_login) (u_password alice)"
    by (simp_all add: nobody_login_def alice_wrong_login_def registered_def alice_def
        toLowerCase_def lower_char_def first_by_email_def)
  show ?thesis
    using a b c login_failures_same_answer [OF a b c, of demo_cfg "at_time 2000" "at_time 3000"]
    by simp
qed

text \<open>
  C7. A logout with a token that decodes and has an expiry claim \<open>e\<close> answers 200, deletes
  the entry \<^verbatim>\<open>refresh_<id>\<close> of the subject and, when \<open>e - floor(now / 1000)\<close> is
  positive, writes the entry \<^verbatim>\<open>blacklist_<token>\<close> with exactly that many seconds;
  when it is not positive the blacklist is left as it was, and the session entry is
  deleted all the same.
\<close>

theorem logout_revokes:
  assumes "jwt_decode (lo_token rq) = Some d"
    and "c_exp d = Some e"
  shows "fst (logout cfg cx rq s) = (200, JMessage ''Logged out successfully'') \<and>
         refresh_keys (snd (logout cfg cx rq s)) = (refresh_keys s)(u_id (lo_user rq) := None) \<and>
         blacklist_keys (snd (logout cfg cx rq s)) =
           (if 0 < e - now cx div 1000
            then (blacklist_keys s)(lo_token rq \<mapsto>
                   \<lparr>e_value = ''1'', e_ttl = e - now cx div 1000, e_set_at = now cx\<rparr>)
            else blacklist_keys s)"
  using assms by (simp add: logout_def redis_del_def redis_setex_def)

text \<open>Claims without an expiry are treated like expired ones: no blacklist entry.\<close>

lemma logout_without_expiry:
  "jwt_decode (lo_token rq) = Some d \<Longrightarrow> c_exp d = None \<Longrightarrow>
     fst (logout cfg cx rq s) = (200, JMessage ''Logged out successfully'') \<and>
     refresh_keys (snd (logout cfg cx rq s)) = (refresh_keys s)(u_id (lo_user rq) := None) \<and>
     blacklist_keys (snd (logout cfg cx rq s)) = blacklist_keys s"
  by (simp add: logout_def redis_del_def)

theorem logout_revokes_witness:
  "jwt_decode (lo_token alice_logout) =
     Some \<lparr>c_id = ''u1'', c_type = ''access'', c_email = None, c_iat = 1, c_exp = Some 901\<rparr> \<and>
   fst (logout demo_cfg (at_time 2000) alice_logout registered) =
     (200, JMessage ''Logged out successfully'') \<and>
   refresh_keys (snd (logout demo_cfg (at_time 2000) alice_logout registered)) ''u1'' = None \<and>
   blacklist_keys (snd (logout demo_cfg (at_time 2000) alice_logout registered)) alice_access =
     Some \<lparr>e_value = ''1'', e_ttl = 899, e_set_at = 2000\<rparr> \<and>
   refresh_keys (snd (logout demo_cfg (at_time 901000) alice_logout registered)) ''u1'' = None \<and>
   blacklist_keys (snd (logout demo_cfg (at_time 901000) alice_logout registered)) =
     blacklist_keys registered"
proof -
  let ?d = "\<lparr>c_id = ''u1'', c_type = ''access'', c_email = None, c_iat = 1, c_exp = Some 901\<rparr>"
  have d: "jwt_decode (lo_token alice_logout) = Some ?d"
    by (simp add: alice_logout_def alice_access_def)
  have e: "c_exp ?d = Some 901"
    by simp
  have more: "now (at_time 2000) = 2000" "now (at_time 901000) = 901000"
    "u_id (lo_user alice_logout) = ''u1''" "lo_token alice_logout = alice_access"
    by (simp_all add: at_time_def alice_logout_def alice_def)
  show ?thesis
    using d more
      logout_revokes [OF d e, of demo_cfg "at_time 2000" registered]
      logout_revokes [OF d e, of demo_cfg "at_time 901000" registered]
    by simp
qed

text \<open>
  C8 (amended). A login with the right password for a principal whose 2FA flag is set and
  whose 2FA secret is stored (not null, not empty) issues no access or refresh token: it
  answers with the challenge token, signed with \<^verbatim>\<open>JWT_SECRET\<close>, of type
  \<open>2fa_temp\<close>, expiring 300 seconds after its issue, and the only change of the state
  is the entry \<^verbatim>\<open>2fa_temp_<id>\<close> holding that token for 300 seconds.
\<close>

theorem login_two_factor_challenge:
  assumes "first_by_email (toLowerCase (lr_email rq)) (users s) = Some u"
    and "bcrypt_compare (lr_password rq) (u_password u)"
    and "two_factor_enabled u"
    and "truthy (two_factor_secret u)"
    and "tok = Jwt \<lparr>c_id = u_id u, c_type = ''2fa_temp'', c_email = Some (u_email u),
                     c_iat = now cx div 1000, c_exp = Some (now cx div 1000 + 300)\<rparr>
                 (JWT_SECRET cfg)"
  shows "login cfg cx rq s =
           ((200, JTwoFactor tok ''Please enter your 2FA code''),
            s\<lparr>twofa_temp_keys := (twofa_temp_keys s)(u_id u \<mapsto>
                 \<lparr>e_value = tok, e_ttl = 300, e_set_at = now cx\<rparr>)\<rparr>)"
  using assms by (simp add: login_def Let_def jwt_sign_def redis_setex_def)

theorem login_two_factor_challenge_witness:
  "first_by_email (toLowerCase (lr_email carol_login)) (users two_factor_state) = Some carol \<and>
   bcrypt_compare (lr_password carol_login) (u_password carol) \<and>
   two_factor_enabled carol \<and> truthy (two_factor_secret carol) \<and>
   login demo_cfg (at_time 7000) carol_login two_factor_state =
     ((200, JTwoFactor (challenge carol) ''Please enter your 2FA code''),
      two_factor_state\<lparr>twofa_temp_keys :=
        [''u2'' \<mapsto> \<lparr>e_value = challenge carol, e_ttl = 300, e_set_at = 7000\<rparr>]\<rparr>)"
proof -
  have a: "first_by_email (toLowerCase (lr_email carol_login)) (users two_factor_state) =
      Some carol"
    and b: "bcrypt_compare (lr_password carol_login) (u_password carol)"
    and c: "two_factor_enabled carol"
    and d: "truthy (two_factor_secret carol)"
    by (simp_all add: carol_login_def two_factor_state_def empty_state_def carol_def dave_def
        toLowerCase_def lower_char_def first_by_email_def truthy_def)
  have t: "challenge carol =
      Jwt \<lparr>c_id = u_id carol, c_type = ''2fa_temp'', c_email = Some (u_email carol),
           c_iat = now (at_time 7000) div 1000, c_exp = Some (now (at_time 7000) div 1000 + 300)\<rparr>
        (JWT_SECRET demo_cfg)"
    by (simp add: challenge_def carol_def at_time_def demo_cfg_def)
  have more: "u_id carol = ''u2''" "now (at_time 7000) = 7000"
    "twofa_temp_keys two_factor_state = Map.empty"
    by (simp_all add: carol_def at_time_def two_factor_state_def empty_state_def)
  show ?thesis
    using a b c d more login_two_factor_challenge [OF a b c d t]
    by simp
qed

text \<open>
  C8 as stated fails: Dave has the 2FA flag set and no stored secret; his login with the
  right password returns access and refresh tokens and stores no challenge.
\<close>

theorem login_flag_without_secret_gets_tokens:
  "two_factor_enabled dave \<and>
   bcrypt_compare (lr_password dave_login) (u_password dave) \<and>
   fst (login demo_cfg (at_time 7000) dave_login two_factor_state) =
     (200, JUserTokens dave
        (Jwt \<lparr>c_id = ''u3'', c_type = ''access'', c_email = None, c_iat = 7, c_exp = Some 907\<rparr>
           ''access-secret'')
        (Jwt \<lparr>c_id = ''u3'', c_type = ''refresh'', c_email = None, c_iat = 7,
              c_exp = Some 604807\<rparr> ''refresh-secret'')
        ''Login successful'') \<and>
   twofa_temp_keys (snd (login demo_cfg (at_time 7000) dave_login two_factor_state)) ''u3'' = None"
  by (simp add: login_def demo_cfg_def at_time_def dave_login_def two_factor_state_def
      empty_state_def carol_def dave_def toLowerCase_def lower_char_def first_by_email_def truthy_def jwt_sign_def
      redis_setex_def generateTokens_def update_by_id_def touch_online_def audit_row_def week_def
      Let_def)

text \<open>
  C9. A login with the right password for a principal whose 2FA flag is set but whose
  stored secret is null (or empty) is not challenged: it answers 200 with an access token
  (type \<open>access\<close>, signed with \<^verbatim>\<open>JWT_SECRET\<close>, lifetime \<^verbatim>\<open>JWT_EXPIRE\<close>) and a
  refresh token (type \<open>refresh\<close>, signed with \<^verbatim>\<open>JWT_REFRESH_SECRET\<close>, lifetime
  \<^verbatim>\<open>JWT_REFRESH_EXPIRE\<close>) for the principal, both issued in the second of the login,
  stores that refresh token under \<^verbatim>\<open>refresh_<id>\<close> for seven days and leaves the
  challenge entries as they were.
\<close>

theorem login_bypasses_two_factor_without_secret:
  assumes "first_by_email (toLowerCase (lr_email rq)) (users s) = Some u"
    and "bcrypt_compare (lr_password rq) (u_password u)"
    and "two_factor_enabled u"
    and "two_factor_secret u = None \<or> two_factor_secret u = Some []"
  shows "fst (login cfg cx rq s) =
           (200, JUserTokens u
              (Jwt \<lparr>c_id = u_id u, c_type = ''access'', c_email = None,
                    c_iat = now cx div 1000, c_exp = Some (now cx div 1000 + JWT_EXPIRE cfg)\<rparr>
                 (JWT_SECRET cfg))
              (Jwt \<lparr>c_id = u_id u, c_type = ''refresh'', c_email = None,
                    c_iat = now cx div 1000,
                    c_exp = Some (now cx div 1000 + JWT_REFRESH_EXPIRE cfg)\<rparr>
                 (JWT_REFRESH_SECRET cfg))
              ''Login successful'') \<and>
         twofa_temp_keys (snd (login cfg cx rq s)) = twofa_temp_keys s \<and>
         refresh_keys (snd (login cfg cx rq s)) =
           (refresh_keys s)(u_id u \<mapsto>
             \<lparr>e_value =
                \<lparr>s_token =
                   Jwt \<lparr>c_id = u_id u, c_type = ''refresh'', c_email = None,
                        c_iat = now cx div 1000,
                        c_exp = Some (now cx div 1000 + JWT_REFRESH_EXPIRE cfg)\<rparr>
                     (JWT_REFRESH_SECRET cfg),
                 s_email = u_email u, s_roles = u_roles u\<rparr>,
              e_ttl = 7 * 24 * 60 * 60, e_set_at = now cx\<rparr>)"
  using assms
  by (auto simp: login_def truthy_def Let_def redis_setex_def week_def generateTokens_def
      jwt_sign_def)

theorem login_bypasses_two_factor_without_secret_witness:
  "first_by_email (toLowerCase (lr_email dave_login)) (users pending_state) = Some dave \<and>
   bcrypt_compare (lr_password dave_login) (u_password dave) \<and>
   two_factor_enabled dave \<and> two_factor_secret dave = None \<and>
   fst (login demo_cfg (at_time 9000) dave_login pending_state) =
     (200, JUserTokens dave
        (Jwt \<lparr>c_id = ''u3'', c_type = ''access'', c_email = None, c_iat = 9, c_exp = Some 909\<rparr>
           ''access-secret'')
        (Jwt \<lparr>c_id = ''u3'', c_type = ''refresh'', c_email = None, c_iat = 9,
              c_exp = Some 604809\<rparr> ''refresh-secret'')
        ''Login successful'') \<and>
   twofa_temp_keys (snd (login demo_cfg (at_time 9000) dave_login pending_state)) =
     twofa_temp_keys pending_state \<and>
   refresh_keys (snd (login demo_cfg (at_time 9000) dave_login pending_state)) ''u3'' =
     Some \<lparr>e_value =
             \<lparr>s_token =
                Jwt \<lparr>c_id = ''u3'', c_type = ''refresh'', c_email = None, c_iat = 9,
                     c_exp = Some 604809\<rparr> ''refresh-secret'',
              s_email = ''dave@b.com'', s_roles = [''specialist'']\<rparr>,
           e_ttl = 604800, e_set_at = 9000\<rparr>"
proof -
  have a: "first_by_email (toLowerCase (lr_email dave_login)) (users pending_state) = Some dave"
    and b: "bcrypt_compare (lr_password dave_login) (u_password dave)"
    and c: "two_factor_enabled dave"
    and d: "two_factor_secret dave = None"
    by (simp_all add: dave_login_def pending_state_def two_factor_state_def empty_state_def
        carol_def dave_def toLowerCase_def lower_char_def first_by_email_def)
  from d have d': "two_factor_secret dave = None \<or> two_factor_secret dave = Some []"
    by simp
  have more: "u_id dave = ''u3''" "u_email dave = ''dave@b.com''"
    "u_roles dave = [''specialist'']" "now (at_time 9000) = 9000"
    "JWT_EXPIRE demo_cfg = 900" "JWT_REFRESH_EXPIRE demo_cfg = 604800"
    "JWT_SECRET demo_cfg = ''access-secret''" "JWT_REFRESH_SECRET demo_cfg = ''refresh-secret''"
    by (simp_all add: dave_def at_time_def demo_cfg_def)
  show ?thesis
    using a b c d more
      login_bypasses_two_factor_without_secret [OF a b c d', of demo_cfg "at_time 9000"]
    by simp
qed

text \<open>
  C10. A logout with a token string that does not decode answers 500 \<open>Logout failed\<close>
  and leaves the whole state as it was: no blacklist entry, the session entry still there.
\<close>

theorem logout_undecodable_fails:
  assumes "jwt_decode (lo_token rq) = None"
  shows "logout cfg cx rq s = ((500, JError ''Logout failed''), s)"
  using assms by (simp add: logout_def)

theorem logout_undecodable_fails_witness:
  "jwt_decode (lo_token garbage_logout) = None \<and>
   logout demo_cfg (at_time 2000) garbage_logout registered =
     ((500, JError ''Logout failed''), registered) \<and>
   redis_get (refresh_keys registered) ''u1'' 2000 =
     Some \<lparr>s_token = alice_refresh, s_email = ''a@b.com'', s_roles = [''client'']\<rparr>"
proof -
  have h: "jwt_decode (lo_token garbage_logout) = None"
    by (simp add: garbage_logout_def)
  have kept: "redis_get (refresh_keys registered) ''u1'' 2000 =
      Some \<lparr>s_token = alice_refresh, s_email = ''a@b.com'', s_roles = [''client'']\<rparr>"
    by (simp add: registered_def redis_get_def)
  show ?thesis
    using h kept logout_undecodable_fails [OF h, of demo_cfg "at_time 2000" registered]
    by simp
qed

end
